theory Spec2Isabelle
  imports Main "HOL-Library.Sublist"
begin

section \<open>The video generation server: submission, status probing, polling\<close>

text \<open>
  A shallow embedding of \<^verbatim>\<open>comprehensive_veo3_solution.js\<close>: the handler of
  \<^verbatim>\<open>POST /generate-video\<close> and \<^verbatim>\<open>checkOperationStatusComprehensive\<close>.
  The remote service, the credential provider, the clock and the timer are the
  environment: a record of functions that answer each call. Every call the code makes
  and every line it logs is recorded as an event, in program order, beside the value the
  code returns. An exception is a value \<open>Inl err\<close>.
\<close>

subsection \<open>Values\<close>

type_synonym candidate = string

text \<open>A JavaScript error object: its \<^verbatim>\<open>message\<close> and, when it has one, its numeric \<^verbatim>\<open>code\<close>.\<close>

record js_error =
  message :: string
  code :: "int option"

text \<open>
  The error a property read on \<^verbatim>\<open>undefined\<close> throws. The wording of the message is the
  engine's; it carries no \<^verbatim>\<open>code\<close>.
\<close>

definition TypeError :: "string \<Rightarrow> js_error" where
  "TypeError prop =
     \<lparr>message = ''Cannot read properties of undefined (reading '' @ prop @ '')'', code = None\<rparr>"

definition Error :: "string \<Rightarrow> js_error" where
  "Error msg = \<lparr>message = msg, code = None\<rparr>"

text \<open>The body of the request, \<^verbatim>\<open>req.body\<close>; an absent field is \<open>None\<close>.\<close>

record req_body =
  prompt :: "string option"
  aspectRatio :: "string option"
  durationSeconds :: "int option"
  resolution :: "string option"

text \<open>The request handed to \<^verbatim>\<open>model.generateContent\<close>, with the defaults of the destructuring.\<close>

record generation_request =
  prompt_text :: string
  cfg_aspectRatio :: string
  cfg_sampleCount :: nat
  cfg_durationSeconds :: int
  cfg_resolution :: string

text \<open>The long-running operation that a submission resolves to; \<^verbatim>\<open>name\<close> may be missing.\<close>

record operation =
  name :: "string option"

text \<open>
  The status payload of a lookup (\<^verbatim>\<open>response.data\<close>). A field that is absent or
  \<^verbatim>\<open>null\<close> is \<open>None\<close>; a field that is present has the type the service documents
  (a number, an array of objects, a string). \<open>done_flag\<close> is the truthiness of
  \<^verbatim>\<open>status.done\<close>.
\<close>

record video =
  gcsUri :: "string option"

record veo_response =
  raiMediaFilteredCount :: "int option"
  videos :: "video list option"

record op_status =
  done_flag :: bool
  response :: "veo_response option"

text \<open>
  What \<^verbatim>\<open>axios.get\<close> does: it resolves with a status and the payload (by default
  for a status from 200 to 299), or rejects with an error that has a message and, when the
  server answered, the status of \<^verbatim>\<open>error.response\<close>.
\<close>

datatype 'a reply = Resolved nat 'a | Rejected "nat option" string

text \<open>The response written to \<^verbatim>\<open>res\<close>: the HTTP status and the fields of the JSON body.\<close>

record http_response =
  status_code :: nat
  json :: "(string \<times> string) list"

text \<open>The object \<^verbatim>\<open>checkOperationStatusComprehensive\<close> returns.\<close>

datatype status_result =
    Success op_status string   \<comment> \<open>\<^verbatim>\<open>{success: true, data, endpoint}\<close>\<close>
  | Failure string             \<comment> \<open>\<^verbatim>\<open>{success: false, error}\<close>\<close>

text \<open>One constructor for each \<^verbatim>\<open>console\<close> call of the two functions.\<close>

datatype log_line =
    Received
  | TestingModel candidate
  | SuccessModel candidate
  | FailedModel candidate string
  | OperationIdLine string candidate
  | AuthError string
  | StatusOk candidate
  | Status404 candidate
  | StatusError candidate string
  | DirectOk
  | DirectFailed string
  | StatusLine string
  | ContentFiltered "int option"
  | NoVideo
  | VideoCompleted string
  | StatusCheckFailed string
  | ErrorDuringStatusCheck string
  | TimedOutLine string
  | ErrorInGenerate string

datatype event =
    Submit candidate   \<comment> \<open>\<^verbatim>\<open>model.generateContent\<close> called on this candidate\<close>
  | Probe nat          \<comment> \<open>the loop test passed at this clock reading; the prober is called\<close>
  | Expired nat        \<comment> \<open>the loop test failed at this clock reading\<close>
  | Get string         \<comment> \<open>\<^verbatim>\<open>axios.get\<close> issued on this URL\<close>
  | Log log_line

text \<open>
  The environment. \<open>generateContent\<close> answers a submission to a candidate;
  \<open>getAccessToken n\<close> and \<open>axios_get n\<close> answer the calls of the \<open>n\<close>-th probe;
  \<open>probe_ms n\<close> is the time the \<open>n\<close>-th probe takes and \<open>timer_late n\<close> how late the
  30-second timer after it fires, in milliseconds.
\<close>

record env =
  generateContent :: "candidate \<Rightarrow> generation_request \<Rightarrow> js_error + operation"
  getAccessToken :: "nat \<Rightarrow> js_error + string"
  axios_get :: "nat \<Rightarrow> string \<Rightarrow> string \<Rightarrow> op_status reply"
  probe_ms :: "nat \<Rightarrow> nat"
  timer_late :: "nat \<Rightarrow> nat"

subsection \<open>Constants and string helpers\<close>

definition projectId :: string where
  "projectId = ''dreamframe''"

definition modelEndpoints :: "candidate list" where
  "modelEndpoints = [''veo-3'', ''veo-3.0-generate-001'', ''video-generation'']"

definition maxWaitSeconds :: nat where
  "maxWaitSeconds = 14400"

text \<open>\<^verbatim>\<open>s.split(sep)\<close> for a separator of one character: never the empty array.\<close>

fun js_split :: "char \<Rightarrow> string \<Rightarrow> string list" where
  "js_split sep [] = [[]]"
| "js_split sep (c # cs) =
     (if c = sep then [] # js_split sep cs
      else (case js_split sep cs of
              [] \<Rightarrow> [[c]]
            | w # ws \<Rightarrow> (c # w) # ws))"

text \<open>\<^verbatim>\<open>!x\<close> for a value that is a string or \<^verbatim>\<open>undefined\<close>.\<close>

definition falsy :: "string option \<Rightarrow> bool" where
  "falsy x = (case x of None \<Rightarrow> True | Some s \<Rightarrow> s = [])"

text \<open>Prepending events to the trace of a continuation.\<close>

definition emit :: "event list \<Rightarrow> 'a \<times> event list \<Rightarrow> 'a \<times> event list" where
  "emit evs r = (fst r, evs @ snd r)"

definition model_operation_url :: "candidate \<Rightarrow> string \<Rightarrow> string" where
  "model_operation_url modelEndpoint cleanOperationId =
     ''https://us-central1-aiplatform.googleapis.com/v1/projects/'' @ projectId
       @ ''/locations/us-central1/publishers/google/models/'' @ modelEndpoint
       @ ''/operations/'' @ cleanOperationId"

definition operationsUrl :: "string \<Rightarrow> string" where
  "operationsUrl cleanOperationId =
     ''https://us-central1-aiplatform.googleapis.com/v1/projects/'' @ projectId
       @ ''/locations/us-central1/operations/'' @ cleanOperationId"

subsection \<open>\<^verbatim>\<open>checkOperationStatusComprehensive\<close>\<close>

text \<open>
  The \<^verbatim>\<open>for\<close> loop over the candidates. A reply with status 200 returns; every other
  reply (a resolved status other than 200, a 404, any other rejection) goes on to the next
  candidate. \<open>None\<close> is the loop running to its end.
\<close>

fun try_endpoints ::
  "(string \<Rightarrow> op_status reply) \<Rightarrow> string \<Rightarrow> candidate list \<Rightarrow> status_result option \<times> event list"
where
  "try_endpoints get cleanOperationId [] = (None, [])"
| "try_endpoints get cleanOperationId (modelEndpoint # rest) =
     (let url = model_operation_url modelEndpoint cleanOperationId in
      case get url of
        Resolved st d \<Rightarrow>
          if st = 200 then (Some (Success d modelEndpoint), [Get url, Log (StatusOk modelEndpoint)])
          else emit [Get url] (try_endpoints get cleanOperationId rest)
      | Rejected st msg \<Rightarrow>
          if st = Some 404
          then emit [Get url, Log (Status404 modelEndpoint)]
                 (try_endpoints get cleanOperationId rest)
          else emit [Get url, Log (StatusError modelEndpoint msg)]
                 (try_endpoints get cleanOperationId rest))"

definition all_failed :: string where
  "all_failed = ''All endpoint variations returned 404 - operation may not exist or VEO 3 API issue''"

text \<open>The direct operations API, tried when the loop has run to its end.\<close>

definition try_direct ::
  "(string \<Rightarrow> op_status reply) \<Rightarrow> string \<Rightarrow> status_result \<times> event list"
where
  "try_direct get cleanOperationId =
     (let url = operationsUrl cleanOperationId in
      case get url of
        Resolved st d \<Rightarrow>
          if st = 200 then (Success d ''operations-api'', [Get url, Log DirectOk])
          else (Failure all_failed, [Get url])
      | Rejected st msg \<Rightarrow> (Failure all_failed, [Get url, Log (DirectFailed msg)]))"

text \<open>The operation id without the path that may precede it.\<close>

definition cleanOperationId :: "string \<Rightarrow> string" where
  "cleanOperationId operationId =
     (if CHR ''/'' \<in> set operationId then last (js_split CHR ''/'' operationId)
      else operationId)"

definition checkOperationStatusComprehensive ::
  "env \<Rightarrow> nat \<Rightarrow> candidate list \<Rightarrow> string \<Rightarrow> status_result \<times> event list"
where
  "checkOperationStatusComprehensive e n registry operationId =
     (case getAccessToken e n of
        Inl err \<Rightarrow>
          (Failure (''Status check failed: '' @ message err), [Log (AuthError (message err))])
      | Inr accessToken \<Rightarrow>
          (let get = axios_get e n accessToken
           in case try_endpoints get (cleanOperationId operationId) registry of
                (Some r, evs) \<Rightarrow> (r, evs)
              | (None, evs) \<Rightarrow> emit evs (try_direct get (cleanOperationId operationId))))"

subsection \<open>The handler of \<^verbatim>\<open>POST /generate-video\<close>\<close>

definition request_of :: "req_body \<Rightarrow> generation_request" where
  "request_of body =
     \<lparr>prompt_text = (case prompt body of Some p \<Rightarrow> p | None \<Rightarrow> []),
      cfg_aspectRatio = (case aspectRatio body of Some a \<Rightarrow> a | None \<Rightarrow> ''16:9''),
      cfg_sampleCount = 1,
      cfg_durationSeconds = (case durationSeconds body of Some d \<Rightarrow> d | None \<Rightarrow> 5),
      cfg_resolution = (case resolution body of Some r \<Rightarrow> r | None \<Rightarrow> ''720p'')\<rparr>"

text \<open>
  The submission loop. The first argument is the whole registry, which the \<^verbatim>\<open>catch\<close>
  compares the candidate with (\<^verbatim>\<open>modelEndpoints[modelEndpoints.length - 1]\<close>); the last
  argument is what is left to iterate. \<open>Inr None\<close> is the loop running to its end with
  \<^verbatim>\<open>operation\<close> still undefined.
\<close>

fun submit_loop ::
  "env \<Rightarrow> generation_request \<Rightarrow> candidate list \<Rightarrow> candidate list
     \<Rightarrow> (js_error + (operation \<times> candidate) option) \<times> event list"
where
  "submit_loop e rq registry [] = (Inr None, [])"
| "submit_loop e rq registry (modelEndpoint # rest) =
     (case generateContent e modelEndpoint rq of
        Inr operation \<Rightarrow>
          (Inr (Some (operation, modelEndpoint)),
           [Log (TestingModel modelEndpoint), Submit modelEndpoint, Log (SuccessModel modelEndpoint)])
      | Inl err \<Rightarrow>
          emit [Log (TestingModel modelEndpoint), Submit modelEndpoint,
                Log (FailedModel modelEndpoint (message err))]
            (if modelEndpoint = last registry
             then (Inl (Error ''All model endpoint variations failed''), [])
             else submit_loop e rq registry rest))"

text \<open>
  The loop and the line after it: the operation id and the candidate used, or the error
  thrown (by the loop, or by reading \<^verbatim>\<open>name\<close> or \<^verbatim>\<open>split\<close> of \<^verbatim>\<open>undefined\<close>).
\<close>

definition submit ::
  "env \<Rightarrow> generation_request \<Rightarrow> candidate list \<Rightarrow> (js_error + string \<times> candidate) \<times> event list"
where
  "submit e rq registry =
     (case submit_loop e rq registry registry of
        (Inl err, evs) \<Rightarrow> (Inl err, evs)
      | (Inr None, evs) \<Rightarrow> (Inl (TypeError ''name''), evs)
      | (Inr (Some (operation, modelUsed)), evs) \<Rightarrow>
          (case name operation of
             None \<Rightarrow> (Inl (TypeError ''split''), evs)
           | Some nm \<Rightarrow>
               (let operationId = last (js_split CHR ''/'' nm)
                in (Inr (operationId, modelUsed),
                    evs @ [Log (OperationIdLine operationId modelUsed)]))))"

text \<open>
  What the loop body does with a successful status result: \<open>Inl\<close> is an exception,
  \<open>Inr None\<close> falls through to the timer, \<open>Inr (Some r)\<close> returns the response \<open>r\<close>.
  \<^verbatim>\<open>undefined > 0\<close> is false; \<^verbatim>\<open>!videoUri\<close> holds of \<^verbatim>\<open>undefined\<close> and of the empty
  string.
\<close>

definition filtered_reply :: http_response where
  "filtered_reply =
     \<lparr>status_code = 400,
      json = [(''error'', ''Video generation failed due to content filtering''),
              (''details'', ''Prompt may violate safety policies'')]\<rparr>"

definition empty_reply :: http_response where
  "empty_reply = \<lparr>status_code = 500, json = [(''error'', ''No video generated'')]\<rparr>"

definition success_reply :: "string \<Rightarrow> string \<Rightarrow> string \<Rightarrow> candidate \<Rightarrow> http_response" where
  "success_reply videoUri operationId endpoint modelUsed =
     \<lparr>status_code = 200,
      json = [(''videoUri'', videoUri), (''operationId'', operationId), (''status'', ''success''),
              (''endpoint'', endpoint), (''model'', modelUsed)]\<rparr>"

definition no_video :: "(js_error + http_response option) \<times> event list" where
  "no_video = (Inr (Some empty_reply), [Log NoVideo])"

definition on_status ::
  "candidate \<Rightarrow> string \<Rightarrow> string \<Rightarrow> op_status \<Rightarrow> (js_error + http_response option) \<times> event list"
where
  "on_status modelUsed operationId endpoint status =
     emit [Log (StatusLine endpoint)]
       (if done_flag status then
          (case response status of
             None \<Rightarrow> (Inl (TypeError ''raiMediaFilteredCount''), [])
           | Some r \<Rightarrow>
               if (case raiMediaFilteredCount r of Some k \<Rightarrow> k > 0 | None \<Rightarrow> False) then
                 (Inr (Some filtered_reply), [Log (ContentFiltered (raiMediaFilteredCount r))])
               else
                 (case (case videos r of Some (v # _) \<Rightarrow> gcsUri v | _ \<Rightarrow> None) of
                    None \<Rightarrow> no_video
                  | Some videoUri \<Rightarrow>
                      if videoUri = [] then no_video
                      else
                        (Inr (Some (success_reply videoUri operationId endpoint modelUsed)),
                         [Log (VideoCompleted videoUri)])))
        else (Inr None, []))"

text \<open>One pass of the loop body up to the timer: the response returned, if any.\<close>

definition tick ::
  "env \<Rightarrow> nat \<Rightarrow> candidate list \<Rightarrow> candidate \<Rightarrow> string \<Rightarrow> http_response option \<times> event list"
where
  "tick e n registry modelUsed operationId =
     (case checkOperationStatusComprehensive e n registry operationId of
        (Success status endpoint, evs) \<Rightarrow>
          (case on_status modelUsed operationId endpoint status of
             (Inl err, evs') \<Rightarrow> (None, evs @ evs' @ [Log (ErrorDuringStatusCheck (message err))])
           | (Inr r, evs') \<Rightarrow> (r, evs @ evs'))
      | (Failure err, evs) \<Rightarrow> (None, evs @ [Log (StatusCheckFailed err)]))"

definition timed_out :: "string \<Rightarrow> candidate \<Rightarrow> http_response" where
  "timed_out operationId modelUsed =
     \<lparr>status_code = 504,
      json = [(''error'', ''Operation '' @ operationId @ '' timed out after 14400 seconds''),
              (''model'', modelUsed)]\<rparr>"

text \<open>
  The polling loop. \<open>now\<close> is the reading of \<^verbatim>\<open>Date.now()\<close> in the loop test and \<open>n\<close>
  counts the probes. After a pass that returns nothing the clock has moved by the time of
  the probe, the 30000 ms of the timer and the timer's lateness.
\<close>

function poll ::
  "env \<Rightarrow> candidate list \<Rightarrow> candidate \<Rightarrow> string \<Rightarrow> nat \<Rightarrow> nat \<Rightarrow> nat \<Rightarrow> http_response \<times> event list"
where
  "poll e registry modelUsed operationId startTime n now =
     (if now - startTime < maxWaitSeconds * 1000 then
        (case tick e n registry modelUsed operationId of
           (Some r, evs) \<Rightarrow> (r, Probe now # evs)
         | (None, evs) \<Rightarrow>
             emit (Probe now # evs)
               (poll e registry modelUsed operationId startTime (Suc n)
                  (now + probe_ms e n + 30000 + timer_late e n)))
      else (timed_out operationId modelUsed, [Expired now, Log (TimedOutLine operationId)]))"
  by pat_completeness auto
termination
  by (relation "measure (\<lambda>(e, registry, modelUsed, operationId, startTime, n, now).
                  startTime + maxWaitSeconds * 1000 - now)")
     (auto simp: maxWaitSeconds_def)

declare poll.simps [simp del]

text \<open>The outer \<^verbatim>\<open>catch\<close> of the handler.\<close>

definition outer_catch :: "js_error \<Rightarrow> http_response \<times> event list" where
  "outer_catch err =
     (if code err = Some 429
      then \<lparr>status_code = 429,
            json = [(''error'', ''Quota exceeded, please try again later''),
                    (''details'', message err)]\<rparr>
      else \<lparr>status_code = 500,
            json = [(''error'', ''Internal server error''), (''details'', message err)]\<rparr>,
      [Log (ErrorInGenerate (message err))])"

text \<open>
  The handler; \<open>startTime\<close> is the reading of \<^verbatim>\<open>Date.now()\<close> when the submission has
  been accepted.
\<close>

definition generate_video ::
  "env \<Rightarrow> candidate list \<Rightarrow> req_body \<Rightarrow> nat \<Rightarrow> http_response \<times> event list"
where
  "generate_video e registry body startTime =
     emit [Log Received]
       (if falsy (prompt body)
        then (\<lparr>status_code = 400, json = [(''error'', ''Prompt is required'')]\<rparr>, [])
        else
          (case submit e (request_of body) registry of
             (Inl err, evs) \<Rightarrow> emit evs (outer_catch err)
           | (Inr (operationId, modelUsed), evs) \<Rightarrow>
               emit evs (poll e registry modelUsed operationId startTime 0 startTime)))"

subsection \<open>Reading a trace\<close>

fun submits :: "event list \<Rightarrow> candidate list" where
  "submits [] = []"
| "submits (Submit c # evs) = c # submits evs"
| "submits (_ # evs) = submits evs"

fun gets :: "event list \<Rightarrow> string list" where
  "gets [] = []"
| "gets (Get u # evs) = u # gets evs"
| "gets (_ # evs) = gets evs"

fun probes :: "event list \<Rightarrow> nat list" where
  "probes [] = []"
| "probes (Probe t # evs) = t # probes evs"
| "probes (_ # evs) = probes evs"

fun expiries :: "event list \<Rightarrow> nat list" where
  "expiries [] = []"
| "expiries (Expired t # evs) = t # expiries evs"
| "expiries (_ # evs) = expiries evs"

subsection \<open>Example environments\<close>

text \<open>
  Concrete answers of the environment, on which the theorems below are instantiated. In
  \<open>default_env\<close> no candidate accepts a submission, the token is granted and every
  lookup is answered 404.
\<close>

definition not_found :: js_error where
  "not_found = \<lparr>message = ''Publisher model not found'', code = None\<rparr>"

definition quota :: js_error where
  "quota = \<lparr>message = ''Quota exceeded for aiplatform.googleapis.com'', code = Some 429\<rparr>"

definition default_env :: env where
  "default_env =
     \<lparr>generateContent = (\<lambda>m rq. Inl not_found),
      getAccessToken = (\<lambda>n. Inr ''ya29.token''),
      axios_get = (\<lambda>n tok url. Rejected (Some 404) ''Request failed with status code 404''),
      probe_ms = (\<lambda>n. 0),
      timer_late = (\<lambda>n. 0)\<rparr>"

definition sunset :: req_body where
  "sunset = \<lparr>prompt = Some ''sunset'', aspectRatio = None, durationSeconds = Some 5, resolution = None\<rparr>"

definition op42 :: operation where
  "op42 = \<lparr>name = Some ''projects/dreamframe/locations/us-central1/operations/op42''\<rparr>"

definition second_accepts :: env where
  "second_accepts =
     default_env\<lparr>generateContent :=
       (\<lambda>m rq. if m = ''veo-3'' then Inl not_found else Inr op42)\<rparr>"

definition repeated_entry :: env where
  "repeated_entry =
     default_env\<lparr>generateContent := (\<lambda>m rq. if m = ''v2'' then Inr op42 else Inl not_found)\<rparr>"

definition quota_env :: env where
  "quota_env = default_env\<lparr>generateContent := (\<lambda>m rq. Inl quota)\<rparr>"

definition running :: op_status where
  "running = \<lparr>done_flag = False, response = None\<rparr>"

definition filtered_payload :: op_status where
  "filtered_payload =
     \<lparr>done_flag = True,
      response = Some \<lparr>raiMediaFilteredCount = Some 1,
                       videos = Some [\<lparr>gcsUri = Some ''gs://dreamframe/out.mp4''\<rparr>]\<rparr>\<rparr>"

definition empty_payload :: op_status where
  "empty_payload =
     \<lparr>done_flag = True, response = Some \<lparr>raiMediaFilteredCount = Some 0, videos = Some []\<rparr>\<rparr>"

definition video_payload :: op_status where
  "video_payload =
     \<lparr>done_flag = True,
      response = Some \<lparr>raiMediaFilteredCount = None,
                       videos = Some [\<lparr>gcsUri = Some ''gs://dreamframe/out.mp4''\<rparr>]\<rparr>\<rparr>"

definition no_response_payload :: op_status where
  "no_response_payload = \<lparr>done_flag = True, response = None\<rparr>"

text \<open>Every lookup is answered 200 with the payload \<open>d\<close>; the timer is four hours late.\<close>

definition answers :: "op_status \<Rightarrow> env" where
  "answers d =
     default_env\<lparr>axios_get := (\<lambda>n tok url. Resolved 200 d), timer_late := (\<lambda>n. 14400000)\<rparr>"

definition generic_answers :: env where
  "generic_answers =
     default_env\<lparr>axios_get :=
       (\<lambda>n tok url. if url = operationsUrl ''abc123'' then Resolved 200 running
                     else Rejected (Some 404) ''Request failed with status code 404'')\<rparr>"

definition timeouts_env :: env where
  "timeouts_env =
     default_env\<lparr>axios_get := (\<lambda>n tok url. Rejected None ''timeout of 10000ms exceeded''),
                 timer_late := (\<lambda>n. 14400000)\<rparr>"

definition no_token_env :: env where
  "no_token_env = default_env\<lparr>getAccessToken := (\<lambda>n. Inl (Error ''invalid_grant''))\<rparr>"


section \<open>Properties\<close>

subsection \<open>Traces and strings\<close>

lemma fst_emit: "fst (emit evs p) = fst p"
  by (simp add: emit_def)

lemma snd_emit: "snd (emit evs p) = evs @ snd p"
  by (simp add: emit_def)

lemma submits_append: "submits (xs @ ys) = submits xs @ submits ys"
  by (induction xs rule: submits.induct) simp_all

lemma gets_append: "gets (xs @ ys) = gets xs @ gets ys"
  by (induction xs rule: gets.induct) simp_all

lemma probes_append: "probes (xs @ ys) = probes xs @ probes ys"
  by (induction xs rule: probes.induct) simp_all

lemma expiries_append: "expiries (xs @ ys) = expiries xs @ expiries ys"
  by (induction xs rule: expiries.induct) simp_all

lemma js_split_nonempty: "js_split sep s \<noteq> []"
  by (induction s) (auto split: list.splits)

lemma js_split_no_sep: "sep \<notin> set s \<Longrightarrow> js_split sep s = [s]"
  by (induction s) auto

lemma js_split_single: "js_split sep s = [w] \<Longrightarrow> sep \<notin> set s \<and> w = s"
proof (induction s arbitrary: w)
  case Nil
  then show ?case by simp
next
  case (Cons c cs)
  show ?case
  proof (cases "c = sep")
    case True
    with Cons.prems show ?thesis by (simp add: js_split_nonempty)
  next
    case False
    obtain v vs where vs: "js_split sep cs = v # vs"
      using js_split_nonempty[of sep cs] by (cases "js_split sep cs") auto
    with False Cons.prems have "vs = []" and "w = c # v" by simp_all
    with vs Cons.IH[of v] False show ?thesis by simp
  qed
qed

lemma last_js_split_append:
  "last (js_split sep (p @ sep # t)) = last (js_split sep t)"
proof (induction p)
  case Nil
  then show ?case by (simp add: js_split_nonempty)
next
  case (Cons c p)
  obtain w ws where ws: "js_split sep (p @ sep # t) = w # ws"
    using js_split_nonempty[of sep "p @ sep # t"] by (cases "js_split sep (p @ sep # t)") auto
  have "ws \<noteq> []"
  proof
    assume "ws = []"
    with ws js_split_single[of sep "p @ sep # t" w] show False by simp
  qed
  with ws Cons.IH show ?case by (cases "c = sep") simp_all
qed

lemma last_js_split_cases:
  "(sep \<notin> set s \<and> last (js_split sep s) = s) \<or>
   (\<exists>p t. s = p @ sep # t \<and> sep \<notin> set t \<and> last (js_split sep s) = t)"
proof (cases "sep \<in> set s")
  case False
  then show ?thesis by (simp add: js_split_no_sep)
next
  case True
  then obtain p t where "s = p @ sep # t" and "sep \<notin> set t"
    by (auto dest: split_list_last)
  then show ?thesis
    using last_js_split_append[of sep p t] by (auto simp: js_split_no_sep)
qed

lemma submit_loop_first_success:
  assumes "\<forall>m\<in>set pre. (\<exists>err. generateContent e m rq = Inl err) \<and> m \<noteq> last registry"
      and "generateContent e c rq = Inr operation"
  shows "fst (submit_loop e rq registry (pre @ c # post)) = Inr (Some (operation, c)) \<and>
         submits (snd (submit_loop e rq registry (pre @ c # post))) = pre @ [c]"
  using assms by (induction pre) (auto simp: fst_emit snd_emit)

lemma submit_loop_all_fail:
  assumes "\<forall>m\<in>set rest. \<exists>err. generateContent e m rq = Inl err"
      and "rest \<noteq> []" and "last rest = last registry"
  shows "fst (submit_loop e rq registry rest) = Inl (Error ''All model endpoint variations failed'') \<and>
         prefix (submits (snd (submit_loop e rq registry rest))) rest \<and>
         gets (snd (submit_loop e rq registry rest)) = [] \<and>
         probes (snd (submit_loop e rq registry rest)) = []"
  using assms
proof (induction rest)
  case Nil
  then show ?case by simp
next
  case (Cons m rest)
  then show ?case by (cases "rest = []") (auto simp: fst_emit snd_emit)
qed

subsection \<open>Submission\<close>

text \<open>
  Claim C1. For a registry without repeated entries: when some candidate accepts the
  submission, \<open>submit\<close> returns the first candidate of the registry that accepts it,
  whatever the later candidates would have answered; the candidates tried are exactly those
  up to it; and the handle returned is the part of the resource name after its last
  \<open>/\<close> (the whole name when it has none).
\<close>

theorem submit_first_success:
  assumes "distinct registry" and "registry = pre @ c # post"
      and "\<forall>m\<in>set pre. \<exists>err. generateContent e m rq = Inl err"
      and "generateContent e c rq = Inr operation"
      and "name operation = Some nm"
  shows "\<exists>handle. fst (submit e rq registry) = Inr (handle, c)
           \<and> submits (snd (submit e rq registry)) = pre @ [c]
           \<and> CHR ''/'' \<notin> set handle
           \<and> (nm = handle \<or> (\<exists>p. nm = p @ CHR ''/'' # handle))"
proof -
  have "last registry \<in> set (c # post)"
    using assms(2) by (cases post) simp_all
  with assms(1,2) have "\<forall>m\<in>set pre. m \<noteq> last registry"
    by auto
  with assms(3) have
    "\<forall>m\<in>set pre. (\<exists>err. generateContent e m rq = Inl err) \<and> m \<noteq> last registry"
    by blast
  from submit_loop_first_success[OF this assms(4), where post = post] assms(2)
  have loop: "fst (submit_loop e rq registry registry) = Inr (Some (operation, c))"
    and tried: "submits (snd (submit_loop e rq registry registry)) = pre @ [c]"
    by simp_all
  let ?h = "last (js_split CHR ''/'' nm)"
  from loop tried assms(5) have "fst (submit e rq registry) = Inr (?h, c)"
    and "submits (snd (submit e rq registry)) = pre @ [c]"
    by (auto simp: submit_def submits_append Let_def split: prod.splits sum.splits option.splits)
  moreover have "CHR ''/'' \<notin> set ?h"
    using last_js_split_cases[of "CHR ''/''" nm] by auto
  moreover have "nm = ?h \<or> (\<exists>p. nm = p @ CHR ''/'' # ?h)"
    using last_js_split_cases[of "CHR ''/''" nm] by auto
  ultimately show ?thesis by blast
qed

theorem submit_first_success_witness:
  "distinct modelEndpoints
   \<and> modelEndpoints = [''veo-3''] @ ''veo-3.0-generate-001'' # [''video-generation'']
   \<and> generateContent second_accepts ''veo-3'' (request_of sunset) = Inl not_found
   \<and> generateContent second_accepts ''video-generation'' (request_of sunset) = Inr op42
   \<and> fst (submit second_accepts (request_of sunset) modelEndpoints)
       = Inr (''op42'', ''veo-3.0-generate-001'')
   \<and> submits (snd (submit second_accepts (request_of sunset) modelEndpoints))
       = [''veo-3'', ''veo-3.0-generate-001'']"
proof -
  have d: "distinct modelEndpoints"
    by (simp add: modelEndpoints_def)
  have r: "modelEndpoints = [''veo-3''] @ ''veo-3.0-generate-001'' # [''video-generation'']"
    by (simp add: modelEndpoints_def)
  have f: "\<forall>m\<in>set [''veo-3'']. \<exists>err. generateContent second_accepts m (request_of sunset) = Inl err"
    by (simp add: second_accepts_def default_env_def)
  have s: "generateContent second_accepts ''veo-3.0-generate-001'' (request_of sunset) = Inr op42"
    by (simp add: second_accepts_def default_env_def)
  have n: "name op42 = Some ''projects/dreamframe/locations/us-central1/operations/op42''"
    by (simp add: op42_def)
  from submit_first_success[OF d r f s n]
  obtain h where h: "fst (submit second_accepts (request_of sunset) modelEndpoints)
                       = Inr (h, ''veo-3.0-generate-001'')"
    and t: "submits (snd (submit second_accepts (request_of sunset) modelEndpoints))
              = [''veo-3''] @ [''veo-3.0-generate-001'']"
    by blast
  have "fst (submit second_accepts (request_of sunset) modelEndpoints)
          = Inr (''op42'', ''veo-3.0-generate-001'')"
    by (simp add: submit_def modelEndpoints_def second_accepts_def default_env_def op42_def
        not_found_def emit_def Let_def)
  with d r t show ?thesis
    by (simp add: second_accepts_def default_env_def)
qed

text \<open>
  The registry must not repeat an entry: the \<^verbatim>\<open>catch\<close> recognises the last candidate by
  its value, so a failing candidate that is repeated at the end of the list ends the loop
  at its first occurrence, before the candidates between the two are tried.
\<close>

lemma submit_repeated_entry:
  "fst (submit repeated_entry (request_of sunset) [''v1'', ''v2'', ''v1''])
     = Inl (Error ''All model endpoint variations failed'')
   \<and> submits (snd (submit repeated_entry (request_of sunset) [''v1'', ''v2'', ''v1''])) = [''v1'']"
  by (simp add: submit_def repeated_entry_def default_env_def emit_def)

lemma submit_loop_quiet:
  "gets (snd (submit_loop e rq registry rest)) = [] \<and> probes (snd (submit_loop e rq registry rest)) = []
   \<and> prefix (submits (snd (submit_loop e rq registry rest))) rest"
  by (induction rest) (auto simp: snd_emit split: sum.splits)

lemma submit_quiet:
  "gets (snd (submit e rq registry)) = [] \<and> probes (snd (submit e rq registry)) = []
   \<and> prefix (submits (snd (submit e rq registry))) registry"
  using submit_loop_quiet[of e rq registry registry]
  by (auto simp: submit_def gets_append probes_append submits_append Let_def
      split: prod.splits sum.splits option.splits)

lemma submit_all_fail:
  assumes "\<forall>m\<in>set registry. \<exists>err. generateContent e m rq = Inl err"
  shows "fst (submit e rq registry) =
           Inl (if registry = [] then TypeError ''name''
                else Error ''All model endpoint variations failed'')"
proof (cases "registry = []")
  case True
  then show ?thesis by (simp add: submit_def)
next
  case False
  with submit_loop_all_fail[of registry e rq registry] assms
  show ?thesis by (auto simp: submit_def split: prod.splits sum.splits option.splits)
qed


text \<open>
  Claim C9. When every candidate refuses the submission, the handler answers 500: no
  operation comes out of \<open>submit\<close>, no probe is started and no lookup issued, and each
  candidate is tried at most once, in registry order. For a registry that is not empty the
  error thrown is "All model endpoint variations failed", reported as an internal server
  error.
\<close>

theorem all_candidates_fail:
  assumes "\<not> falsy (prompt body)"
      and "\<forall>m\<in>set registry. \<exists>err. generateContent e m (request_of body) = Inl err"
  shows "status_code (fst (generate_video e registry body startTime)) = 500
       \<and> (\<exists>err. fst (submit e (request_of body) registry) = Inl err)
       \<and> probes (snd (generate_video e registry body startTime)) = []
       \<and> gets (snd (generate_video e registry body startTime)) = []
       \<and> prefix (submits (snd (generate_video e registry body startTime))) registry
       \<and> (registry \<noteq> [] \<longrightarrow>
            fst (submit e (request_of body) registry)
              = Inl (Error ''All model endpoint variations failed'')
            \<and> json (fst (generate_video e registry body startTime))
              = [(''error'', ''Internal server error''),
                 (''details'', ''All model endpoint variations failed'')])"
proof -
  let ?s = "submit e (request_of body) registry"
  let ?err = "if registry = [] then TypeError ''name''
              else Error ''All model endpoint variations failed''"
  have s: "fst ?s = Inl ?err"
    using submit_all_fail[OF assms(2)] .
  obtain r evs where se: "?s = (r, evs)"
    by (cases ?s)
  with s have "r = Inl ?err"
    by simp
  with se assms(1) have g: "generate_video e registry body startTime
                  = emit [Log Received] (emit (snd ?s) (outer_catch ?err))"
    by (simp add: generate_video_def)
  have c: "code ?err = None"
    by (simp add: TypeError_def Error_def)
  show ?thesis
    using s c submit_quiet[of e "request_of body" registry]
    by (simp add: g fst_emit snd_emit outer_catch_def gets_append probes_append submits_append
        Error_def)
qed

theorem all_candidates_fail_witness:
  "\<not> falsy (prompt sunset)
   \<and> generateContent default_env ''veo-3'' (request_of sunset) = Inl not_found
   \<and> generateContent default_env ''veo-3.0-generate-001'' (request_of sunset) = Inl not_found
   \<and> generateContent default_env ''video-generation'' (request_of sunset) = Inl not_found
   \<and> fst (generate_video default_env modelEndpoints sunset 0)
       = \<lparr>status_code = 500,
          json = [(''error'', ''Internal server error''),
                  (''details'', ''All model endpoint variations failed'')]\<rparr>
   \<and> submits (snd (generate_video default_env modelEndpoints sunset 0)) = modelEndpoints
   \<and> gets (snd (generate_video default_env modelEndpoints sunset 0)) = []"
proof -
  have p: "\<not> falsy (prompt sunset)"
    by (simp add: falsy_def sunset_def)
  have f: "\<forall>m\<in>set modelEndpoints. \<exists>err. generateContent default_env m (request_of sunset) = Inl err"
    by (simp add: default_env_def)
  have n: "modelEndpoints \<noteq> []"
    by (simp add: modelEndpoints_def)
  have t: "submits (snd (generate_video default_env modelEndpoints sunset 0)) = modelEndpoints"
    by (simp add: generate_video_def submit_def modelEndpoints_def default_env_def falsy_def
        sunset_def emit_def outer_catch_def Error_def not_found_def)
  from all_candidates_fail[OF p f, of 0] n
  have "status_code (fst (generate_video default_env modelEndpoints sunset 0)) = 500"
    and "json (fst (generate_video default_env modelEndpoints sunset 0))
           = [(''error'', ''Internal server error''),
              (''details'', ''All model endpoint variations failed'')]"
    and "gets (snd (generate_video default_env modelEndpoints sunset 0)) = []"
    by simp_all
  with p t show ?thesis
    by (cases "fst (generate_video default_env modelEndpoints sunset 0)")
       (simp add: default_env_def)
qed


text \<open>
  Claim C7. Every candidate of \<open>modelEndpoints\<close> rejects the submission with an error
  whose code is 429. The \<^verbatim>\<open>catch\<close> of the submission loop replaces it by a new error
  without a code, so the handler answers 500 "Internal server error" and not 429.
\<close>

theorem quota_signal_folded:
  "fst (generate_video quota_env modelEndpoints sunset 0)
     = \<lparr>status_code = 500,
        json = [(''error'', ''Internal server error''),
                (''details'', ''All model endpoint variations failed'')]\<rparr>
   \<and> code quota = Some 429
   \<and> generateContent quota_env ''veo-3'' (request_of sunset) = Inl quota
   \<and> generateContent quota_env ''veo-3.0-generate-001'' (request_of sunset) = Inl quota
   \<and> generateContent quota_env ''video-generation'' (request_of sunset) = Inl quota"
  by (simp add: generate_video_def submit_def modelEndpoints_def quota_env_def default_env_def
      falsy_def sunset_def emit_def outer_catch_def Error_def quota_def)

subsection \<open>The status prober\<close>

lemma try_endpoints_none:
  assumes "\<forall>m\<in>set registry. \<forall>d. get (model_operation_url m i) \<noteq> Resolved 200 d"
  shows "fst (try_endpoints get i registry) = None \<and>
         gets (snd (try_endpoints get i registry)) = map (\<lambda>m. model_operation_url m i) registry"
  using assms
  by (induction registry) (auto simp: Let_def fst_emit snd_emit split: reply.splits)

lemma try_endpoints_gets:
  "prefix (gets (snd (try_endpoints get i registry))) (map (\<lambda>m. model_operation_url m i) registry)
   \<and> (fst (try_endpoints get i registry) = None \<longrightarrow>
        gets (snd (try_endpoints get i registry)) = map (\<lambda>m. model_operation_url m i) registry)"
  by (induction registry) (auto simp: Let_def fst_emit snd_emit split: reply.splits)

lemma try_endpoints_first:
  "\<exists>us. gets (snd (try_endpoints get i (c # rest))) = model_operation_url c i # us"
  by (auto simp: Let_def snd_emit split: reply.splits)

lemma try_endpoints_quiet:
  "probes (snd (try_endpoints get i registry)) = [] \<and>
   expiries (snd (try_endpoints get i registry)) = [] \<and>
   submits (snd (try_endpoints get i registry)) = []"
  by (induction registry) (auto simp: Let_def snd_emit split: reply.splits)

lemma try_direct_gets: "gets (snd (try_direct get i)) = [operationsUrl i]"
  by (auto simp: try_direct_def Let_def split: reply.splits)

lemma try_direct_quiet:
  "probes (snd (try_direct get i)) = [] \<and> expiries (snd (try_direct get i)) = [] \<and>
   submits (snd (try_direct get i)) = []"
  by (auto simp: try_direct_def Let_def split: reply.splits)

lemma try_direct_result:
  "fst (try_direct get i) =
     (case get (operationsUrl i) of
        Resolved st d \<Rightarrow> if st = 200 then Success d ''operations-api'' else Failure all_failed
      | Rejected st msg \<Rightarrow> Failure all_failed)"
  by (auto simp: try_direct_def Let_def split: reply.splits)

lemma check_with_token:
  assumes "getAccessToken e n = Inr tok"
  shows "checkOperationStatusComprehensive e n registry operationId =
           (case try_endpoints (axios_get e n tok) (cleanOperationId operationId) registry of
              (Some r, evs) \<Rightarrow> (r, evs)
            | (None, evs) \<Rightarrow>
                emit evs (try_direct (axios_get e n tok) (cleanOperationId operationId)))"
  using assms by (simp add: checkOperationStatusComprehensive_def Let_def)

lemma check_quiet:
  "probes (snd (checkOperationStatusComprehensive e n registry operationId)) = [] \<and>
   expiries (snd (checkOperationStatusComprehensive e n registry operationId)) = [] \<and>
   submits (snd (checkOperationStatusComprehensive e n registry operationId)) = []"
proof (cases "getAccessToken e n")
  case (Inl err)
  then show ?thesis by (simp add: checkOperationStatusComprehensive_def)
next
  case (Inr tok)
  let ?get = "axios_get e n tok" and ?i = "cleanOperationId operationId"
  obtain r evs where t: "try_endpoints ?get ?i registry = (r, evs)"
    by (cases "try_endpoints ?get ?i registry")
  with try_endpoints_quiet[of ?get ?i registry]
  have "probes evs = []" and "expiries evs = []" and "submits evs = []"
    by simp_all
  with try_direct_quiet[of ?get ?i] show ?thesis
    by (cases r)
       (simp_all add: check_with_token[OF Inr] t snd_emit probes_append expiries_append
          submits_append)
qed


text \<open>
  Claim C4. When the token is granted and every lookup scoped to a candidate is answered
  404, the prober requests the URL of every candidate, in registry order, and then the
  one generic operations URL; it returns the generic lookup's payload, tagged
  "operations-api", when that lookup answers 200, and the failure only when it does not.
\<close>

theorem generic_lookup_after_404:
  assumes "getAccessToken e n = Inr tok"
      and "\<forall>m\<in>set registry. \<exists>msg.
             axios_get e n tok (model_operation_url m (cleanOperationId operationId))
               = Rejected (Some 404) msg"
  shows "gets (snd (checkOperationStatusComprehensive e n registry operationId))
           = map (\<lambda>m. model_operation_url m (cleanOperationId operationId)) registry
               @ [operationsUrl (cleanOperationId operationId)]
       \<and> (\<forall>d. axios_get e n tok (operationsUrl (cleanOperationId operationId)) = Resolved 200 d
              \<longrightarrow> fst (checkOperationStatusComprehensive e n registry operationId)
                    = Success d ''operations-api'')
       \<and> ((\<forall>d. axios_get e n tok (operationsUrl (cleanOperationId operationId)) \<noteq> Resolved 200 d)
              \<longrightarrow> fst (checkOperationStatusComprehensive e n registry operationId)
                    = Failure all_failed)"
proof -
  let ?get = "axios_get e n tok" and ?i = "cleanOperationId operationId"
  have "\<forall>m\<in>set registry. \<forall>d. ?get (model_operation_url m ?i) \<noteq> Resolved 200 d"
    using assms(2) by fastforce
  from try_endpoints_none[OF this]
  obtain evs where t: "try_endpoints ?get ?i registry = (None, evs)"
    and g: "gets evs = map (\<lambda>m. model_operation_url m ?i) registry"
    by (cases "try_endpoints ?get ?i registry") auto
  have c: "checkOperationStatusComprehensive e n registry operationId
             = emit evs (try_direct ?get ?i)"
    by (simp add: check_with_token[OF assms(1)] t)
  show ?thesis
    by (auto simp: c fst_emit snd_emit gets_append g try_direct_gets try_direct_result
        split: reply.splits)
qed

theorem generic_lookup_after_404_witness:
  "getAccessToken generic_answers 0 = Inr ''ya29.token''
   \<and> axios_get generic_answers 0 ''ya29.token'' (model_operation_url ''v1'' ''abc123'')
       = Rejected (Some 404) ''Request failed with status code 404''
   \<and> axios_get generic_answers 0 ''ya29.token'' (model_operation_url ''v2'' ''abc123'')
       = Rejected (Some 404) ''Request failed with status code 404''
   \<and> gets (snd (checkOperationStatusComprehensive generic_answers 0 [''v1'', ''v2''] ''abc123''))
       = [model_operation_url ''v1'' ''abc123'', model_operation_url ''v2'' ''abc123'',
          operationsUrl ''abc123'']
   \<and> fst (checkOperationStatusComprehensive generic_answers 0 [''v1'', ''v2''] ''abc123'')
       = Success running ''operations-api''"
proof -
  have c: "cleanOperationId ''abc123'' = ''abc123''"
    by (simp add: cleanOperationId_def)
  have t: "getAccessToken generic_answers 0 = Inr ''ya29.token''"
    by (simp add: generic_answers_def default_env_def)
  have u: "model_operation_url m ''abc123'' \<noteq> operationsUrl ''abc123''" for m
    by (simp add: model_operation_url_def operationsUrl_def projectId_def)
  have f: "\<forall>m\<in>set [''v1'', ''v2'']. \<exists>msg.
             axios_get generic_answers 0 ''ya29.token''
               (model_operation_url m (cleanOperationId ''abc123'')) = Rejected (Some 404) msg"
    using u by (simp add: c generic_answers_def default_env_def)
  have g: "axios_get generic_answers 0 ''ya29.token'' (operationsUrl (cleanOperationId ''abc123''))
             = Resolved 200 running"
    by (simp add: c generic_answers_def default_env_def)
  from generic_lookup_after_404[OF t f] g t u show ?thesis
    by (simp add: c generic_answers_def default_env_def)
qed

text \<open>
  Claim C6, as amended. The prober has two failure reasons, and they differ. When the token
  is granted and no lookup it issues is answered 200, the reason is the fixed text
  "All endpoint variations returned 404 - operation may not exist or VEO 3 API issue",
  whatever the lookups were answered (404, another status, no answer at all). When the
  token is refused, the reason is "Status check failed: " followed by the message of the
  error, and no lookup is issued.
\<close>

theorem failure_reasons:
  "(\<forall>tok. getAccessToken e n = Inr tok \<longrightarrow>
      (\<forall>u\<in>set (map (\<lambda>m. model_operation_url m (cleanOperationId operationId)) registry
                  @ [operationsUrl (cleanOperationId operationId)]).
         \<forall>d. axios_get e n tok u \<noteq> Resolved 200 d) \<longrightarrow>
      fst (checkOperationStatusComprehensive e n registry operationId) = Failure all_failed)
   \<and> (\<forall>err. getAccessToken e n = Inl err \<longrightarrow>
        fst (checkOperationStatusComprehensive e n registry operationId)
          = Failure (''Status check failed: '' @ message err)
        \<and> gets (snd (checkOperationStatusComprehensive e n registry operationId)) = [])
   \<and> all_failed \<noteq> ''Status check failed: '' @ msg"
proof -
  have a: "fst (checkOperationStatusComprehensive e n registry operationId) = Failure all_failed"
    if tok: "getAccessToken e n = Inr tok"
      and f: "\<forall>u\<in>set (map (\<lambda>m. model_operation_url m (cleanOperationId operationId)) registry
                        @ [operationsUrl (cleanOperationId operationId)]).
                \<forall>d. axios_get e n tok u \<noteq> Resolved 200 d" for tok
  proof -
    let ?get = "axios_get e n tok" and ?i = "cleanOperationId operationId"
    from f have "\<forall>m\<in>set registry. \<forall>d. ?get (model_operation_url m ?i) \<noteq> Resolved 200 d"
      by simp
    from try_endpoints_none[OF this]
    obtain evs where t: "try_endpoints ?get ?i registry = (None, evs)"
      by (cases "try_endpoints ?get ?i registry") auto
    from f have "\<forall>d. ?get (operationsUrl ?i) \<noteq> Resolved 200 d"
      by simp
    then have "fst (try_direct ?get ?i) = Failure all_failed"
      by (auto simp: try_direct_result split: reply.splits)
    then show ?thesis
      by (simp add: check_with_token[OF tok] t fst_emit)
  qed
  have b: "fst (checkOperationStatusComprehensive e n registry operationId)
             = Failure (''Status check failed: '' @ message err)
           \<and> gets (snd (checkOperationStatusComprehensive e n registry operationId)) = []"
    if "getAccessToken e n = Inl err" for err
    using that by (simp add: checkOperationStatusComprehensive_def)
  have c: "all_failed \<noteq> ''Status check failed: '' @ msg"
    by (simp add: all_failed_def)
  from a b c show ?thesis by blast
qed

theorem failure_reasons_witness:
  "fst (checkOperationStatusComprehensive timeouts_env 0 modelEndpoints ''op42'') = Failure all_failed
   \<and> fst (checkOperationStatusComprehensive no_token_env 0 modelEndpoints ''op42'')
       = Failure ''Status check failed: invalid_grant''
   \<and> gets (snd (checkOperationStatusComprehensive no_token_env 0 modelEndpoints ''op42'')) = []"
proof -
  have t: "getAccessToken timeouts_env 0 = Inr ''ya29.token''"
    by (simp add: timeouts_env_def default_env_def)
  have f: "\<forall>u\<in>set (map (\<lambda>m. model_operation_url m (cleanOperationId ''op42'')) modelEndpoints
                    @ [operationsUrl (cleanOperationId ''op42'')]).
             \<forall>d. axios_get timeouts_env 0 ''ya29.token'' u \<noteq> Resolved 200 d"
    by (simp add: timeouts_env_def default_env_def)
  have n: "getAccessToken no_token_env 0 = Inl (Error ''invalid_grant'')"
    by (simp add: no_token_env_def default_env_def)
  from failure_reasons[where e = timeouts_env and n = 0 and operationId = "''op42''"
      and registry = modelEndpoints] t f
  have 1: "fst (checkOperationStatusComprehensive timeouts_env 0 modelEndpoints ''op42'')
             = Failure all_failed"
    by blast
  from failure_reasons[where e = no_token_env and n = 0 and operationId = "''op42''"
      and registry = modelEndpoints] n
  have 2: "fst (checkOperationStatusComprehensive no_token_env 0 modelEndpoints ''op42'')
             = Failure (''Status check failed: '' @ message (Error ''invalid_grant''))
           \<and> gets (snd (checkOperationStatusComprehensive no_token_env 0 modelEndpoints ''op42'')) = []"
    by blast
  from 1 2 show ?thesis
    by (simp add: Error_def)
qed

text \<open>
  The reason does not tell a 404 from a transport error: with every lookup answered 404
  and with every lookup timing out, the prober returns the same failure.
\<close>

theorem same_reason_for_404_and_transport_error:
  "axios_get default_env 0 ''ya29.token'' (model_operation_url ''veo-3'' ''op42'')
     = Rejected (Some 404) ''Request failed with status code 404''
   \<and> axios_get timeouts_env 0 ''ya29.token'' (model_operation_url ''veo-3'' ''op42'')
     = Rejected None ''timeout of 10000ms exceeded''
   \<and> fst (checkOperationStatusComprehensive default_env 0 modelEndpoints ''op42'')
     = Failure all_failed
   \<and> fst (checkOperationStatusComprehensive timeouts_env 0 modelEndpoints ''op42'')
     = Failure all_failed"
  by (simp add: checkOperationStatusComprehensive_def timeouts_env_def default_env_def
      modelEndpoints_def cleanOperationId_def try_direct_def emit_def)

subsection \<open>The polling loop\<close>

lemma on_status_quiet:
  "gets (snd (on_status m i ep d)) = [] \<and> probes (snd (on_status m i ep d)) = [] \<and>
   expiries (snd (on_status m i ep d)) = [] \<and> submits (snd (on_status m i ep d)) = []"
  by (auto simp: on_status_def no_video_def snd_emit split: option.splits list.splits)

lemma on_status_codes:
  "fst (on_status m i ep d) = Inr (Some r) \<Longrightarrow> status_code r \<in> {200, 400, 500}"
  by (auto simp: on_status_def no_video_def fst_emit filtered_reply_def empty_reply_def
      success_reply_def split: option.splits list.splits if_splits)

lemma on_status_not_done:
  "\<not> done_flag d \<Longrightarrow> fst (on_status m i ep d) = Inr None"
  by (simp add: on_status_def fst_emit)

lemma tick_failure:
  assumes "fst (checkOperationStatusComprehensive e n registry i) = Failure reason"
  shows "tick e n registry m i =
           (None, snd (checkOperationStatusComprehensive e n registry i)
                    @ [Log (StatusCheckFailed reason)])"
  using assms by (cases "checkOperationStatusComprehensive e n registry i") (simp add: tick_def)

lemma tick_success:
  assumes "fst (checkOperationStatusComprehensive e n registry i) = Success d ep"
  shows "tick e n registry m i =
           (case fst (on_status m i ep d) of
              Inl err \<Rightarrow>
                (None, snd (checkOperationStatusComprehensive e n registry i)
                         @ snd (on_status m i ep d)
                         @ [Log (ErrorDuringStatusCheck (message err))])
            | Inr r \<Rightarrow>
                (r, snd (checkOperationStatusComprehensive e n registry i)
                      @ snd (on_status m i ep d)))"
  using assms
  by (cases "checkOperationStatusComprehensive e n registry i"; cases "on_status m i ep d")
     (simp add: tick_def split: sum.splits)

lemma tick_quiet:
  "gets (snd (tick e n registry m i)) = gets (snd (checkOperationStatusComprehensive e n registry i))
   \<and> probes (snd (tick e n registry m i)) = []
   \<and> expiries (snd (tick e n registry m i)) = []"
proof (cases "fst (checkOperationStatusComprehensive e n registry i)")
  case (Success d ep)
  show ?thesis
    using check_quiet[of e n registry i] on_status_quiet[of m i ep d]
    by (simp add: tick_success[OF Success] gets_append probes_append expiries_append
        split: sum.splits)
next
  case (Failure reason)
  show ?thesis
    using check_quiet[of e n registry i]
    by (simp add: tick_failure[OF Failure] gets_append probes_append expiries_append)
qed

lemma tick_codes:
  assumes "fst (tick e n registry m i) = Some r"
  shows "status_code r \<in> {200, 400, 500}"
proof (cases "fst (checkOperationStatusComprehensive e n registry i)")
  case (Success d ep)
  with assms show ?thesis
    using on_status_codes[of m i ep d r]
    by (simp add: tick_success[OF Success] split: sum.splits)
next
  case (Failure reason)
  with assms show ?thesis by (simp add: tick_failure[OF Failure])
qed

lemma poll_expired:
  assumes "\<not> now - startTime < maxWaitSeconds * 1000"
  shows "poll e registry m i startTime n now =
           (timed_out i m, [Expired now, Log (TimedOutLine i)])"
  using assms by (simp add: poll.simps)

lemma poll_return:
  assumes "now - startTime < maxWaitSeconds * 1000" and "fst (tick e n registry m i) = Some r"
  shows "poll e registry m i startTime n now = (r, Probe now # snd (tick e n registry m i))"
  using assms by (cases "tick e n registry m i") (simp add: poll.simps)

lemma poll_continue:
  assumes "now - startTime < maxWaitSeconds * 1000" and "fst (tick e n registry m i) = None"
  shows "poll e registry m i startTime n now =
           emit (Probe now # snd (tick e n registry m i))
             (poll e registry m i startTime (Suc n) (now + probe_ms e n + 30000 + timer_late e n))"
  using assms by (cases "tick e n registry m i") (simp add: poll.simps)

lemma poll_clock:
  "(\<forall>t\<in>set (probes (snd (poll e registry m i startTime n now))).
       t - startTime < maxWaitSeconds * 1000)
   \<and> (\<forall>t\<in>set (expiries (snd (poll e registry m i startTime n now))).
       maxWaitSeconds * 1000 \<le> t - startTime)
   \<and> (status_code (fst (poll e registry m i startTime n now)) = 504
        \<longleftrightarrow> expiries (snd (poll e registry m i startTime n now)) \<noteq> [])"
proof (induction e registry m i startTime n now rule: poll.induct)
  case (1 e registry m i startTime n now)
  show ?case
  proof (cases "now - startTime < maxWaitSeconds * 1000")
    case False
    then show ?thesis
      by (simp add: poll_expired timed_out_def)
  next
    case True
    show ?thesis
    proof (cases "fst (tick e n registry m i)")
      case (Some r)
      with True tick_quiet[of e n registry m i] tick_codes[OF Some] show ?thesis
        by (auto simp: poll_return)
    next
      case None
      then obtain evs where t: "tick e n registry m i = (None, evs)"
        by (cases "tick e n registry m i") simp
      from "1.IH"[OF True t[symmetric] refl] True tick_quiet[of e n registry m i] show ?thesis
        by (simp add: poll_continue[OF True None] fst_emit snd_emit probes_append expiries_append)
    qed
  qed
qed

lemma poll_never:
  assumes "\<forall>k\<ge>n. fst (tick e k registry m i) = None"
  shows "fst (poll e registry m i startTime n now) = timed_out i m
       \<and> (\<exists>t. expiries (snd (poll e registry m i startTime n now)) = [t])"
  using assms
proof (induction e registry m i startTime n now rule: poll.induct)
  case (1 e registry m i startTime n now)
  show ?case
  proof (cases "now - startTime < maxWaitSeconds * 1000")
    case False
    then show ?thesis by (simp add: poll_expired)
  next
    case True
    from "1.prems" have None: "fst (tick e n registry m i) = None"
      by simp
    then obtain evs where t: "tick e n registry m i = (None, evs)"
      by (cases "tick e n registry m i") simp
    from "1.prems" have "\<forall>k\<ge>Suc n. fst (tick e k registry m i) = None"
      by simp
    from "1.IH"[OF True t[symmetric] refl this] tick_quiet[of e n registry m i] show ?thesis
      by (simp add: poll_continue[OF True None] fst_emit snd_emit expiries_append)
  qed
qed

lemma poll_codes:
  "status_code (fst (poll e registry m i startTime n now)) \<in> {200, 400, 500, 504}"
proof (induction e registry m i startTime n now rule: poll.induct)
  case (1 e registry m i startTime n now)
  show ?case
  proof (cases "now - startTime < maxWaitSeconds * 1000")
    case False
    then show ?thesis
      by (simp add: poll_expired timed_out_def)
  next
    case True
    show ?thesis
    proof (cases "fst (tick e n registry m i)")
      case (Some r)
      with True tick_codes[OF Some] show ?thesis
        by (auto simp: poll_return)
    next
      case None
      then obtain evs where t: "tick e n registry m i = (None, evs)"
        by (cases "tick e n registry m i") simp
      from "1.IH"[OF True t[symmetric] refl] show ?thesis
        by (simp add: poll_continue[OF True None] fst_emit)
    qed
  qed
qed

text \<open>
  Whatever the environment answers, the handler never answers 429: every error that
  reaches the outer \<^verbatim>\<open>catch\<close> was made by the handler itself and has no \<^verbatim>\<open>code\<close>.
\<close>

lemma submit_loop_error:
  "fst (submit_loop e rq registry rest) = Inl err \<Longrightarrow> code err = None"
  by (induction rest) (auto simp: fst_emit Error_def split: sum.splits if_splits)

lemma submit_error:
  assumes "fst (submit e rq registry) = Inl err"
  shows "code err = None"
proof -
  obtain r evs where l: "submit_loop e rq registry registry = (r, evs)"
    by (cases "submit_loop e rq registry registry")
  with assms submit_loop_error[of e rq registry registry] show ?thesis
    by (auto simp: submit_def TypeError_def Let_def split: sum.splits option.splits)
qed

lemma generate_video_never_429:
  "status_code (fst (generate_video e registry body startTime)) \<noteq> 429"
proof (cases "falsy (prompt body)")
  case True
  then show ?thesis
    by (simp add: generate_video_def fst_emit)
next
  case False
  obtain r evs where s: "submit e (request_of body) registry = (r, evs)"
    by (cases "submit e (request_of body) registry")
  show ?thesis
  proof (cases r)
    case (Inl err)
    with s submit_error[of e "request_of body" registry err] have "code err = None"
      by simp
    with False s Inl show ?thesis
      by (simp add: generate_video_def fst_emit outer_catch_def)
  next
    case (Inr x)
    obtain i m where "x = (i, m)"
      by (cases x)
    with False s Inr poll_codes[of e registry m i startTime 0 startTime] show ?thesis
      by (auto simp: generate_video_def fst_emit)
  qed
qed

lemma check_first_answers:
  "checkOperationStatusComprehensive (answers d) n modelEndpoints ''op42''
     = (Success d ''veo-3'', [Get (model_operation_url ''veo-3'' ''op42''), Log (StatusOk ''veo-3'')])"
  by (simp add: checkOperationStatusComprehensive_def answers_def default_env_def
      modelEndpoints_def cleanOperationId_def)

lemma check_timeouts:
  "checkOperationStatusComprehensive timeouts_env n modelEndpoints ''op42''
     = (Failure all_failed,
        [Get (model_operation_url ''veo-3'' ''op42''),
         Log (StatusError ''veo-3'' ''timeout of 10000ms exceeded''),
         Get (model_operation_url ''veo-3.0-generate-001'' ''op42''),
         Log (StatusError ''veo-3.0-generate-001'' ''timeout of 10000ms exceeded''),
         Get (model_operation_url ''video-generation'' ''op42''),
         Log (StatusError ''video-generation'' ''timeout of 10000ms exceeded''),
         Get (operationsUrl ''op42''),
         Log (DirectFailed ''timeout of 10000ms exceeded'')])"
  by (simp add: checkOperationStatusComprehensive_def timeouts_env_def default_env_def
      modelEndpoints_def cleanOperationId_def try_direct_def emit_def)

lemma poll_one_pass:
  assumes "fst (tick e 0 registry m i) = None" and "timer_late e 0 = 14400000"
  shows "poll e registry m i 0 0 0 =
           (timed_out i m,
            Probe 0 # snd (tick e 0 registry m i)
              @ [Expired (probe_ms e 0 + 14430000), Log (TimedOutLine i)])"
proof -
  have "(0::nat) - 0 < maxWaitSeconds * 1000"
    by (simp add: maxWaitSeconds_def)
  from poll_continue[OF this assms(1)] assms(2) show ?thesis
    by (simp add: poll_expired maxWaitSeconds_def emit_def)
qed

lemma check_second_accepts:
  "checkOperationStatusComprehensive second_accepts 0 modelEndpoints ''op42''
     = (Failure all_failed,
        [Get (model_operation_url ''veo-3'' ''op42''), Log (Status404 ''veo-3''),
         Get (model_operation_url ''veo-3.0-generate-001'' ''op42''),
         Log (Status404 ''veo-3.0-generate-001''),
         Get (model_operation_url ''video-generation'' ''op42''),
         Log (Status404 ''video-generation''),
         Get (operationsUrl ''op42''),
         Log (DirectFailed ''Request failed with status code 404'')])"
  by (simp add: checkOperationStatusComprehensive_def second_accepts_def default_env_def
      modelEndpoints_def cleanOperationId_def try_direct_def emit_def)

text \<open>
  Claim C5, as amended. The prober is not told which candidate accepted the submission.
  With the token granted, the lookups of a probe are a prefix of the candidates' URLs in
  registry order followed by the generic URL, and the first lookup goes to the first
  candidate of the registry, whatever \<open>modelUsed\<close> is.
\<close>

theorem lookups_in_registry_order:
  assumes "getAccessToken e n = Inr tok"
  shows "prefix (gets (snd (tick e n registry modelUsed operationId)))
           (map (\<lambda>m. model_operation_url m (cleanOperationId operationId)) registry
              @ [operationsUrl (cleanOperationId operationId)])
       \<and> (\<forall>c rest. registry = c # rest \<longrightarrow>
            (\<exists>us. gets (snd (tick e n registry modelUsed operationId))
                    = model_operation_url c (cleanOperationId operationId) # us))"
proof -
  let ?get = "axios_get e n tok" and ?i = "cleanOperationId operationId"
  let ?urls = "map (\<lambda>m. model_operation_url m ?i) registry"
  obtain r evs where t: "try_endpoints ?get ?i registry = (r, evs)"
    by (cases "try_endpoints ?get ?i registry")
  have g: "gets (snd (tick e n registry modelUsed operationId))
             = gets (snd (checkOperationStatusComprehensive e n registry operationId))"
    using tick_quiet by blast
  have p: "prefix (gets (snd (checkOperationStatusComprehensive e n registry operationId)))
             (?urls @ [operationsUrl ?i])"
  proof (cases r)
    case None
    with try_endpoints_gets[of ?get ?i registry] t have "gets evs = ?urls"
      by simp
    with None t show ?thesis
      by (simp add: check_with_token[OF assms] snd_emit gets_append try_direct_gets)
  next
    case (Some x)
    with try_endpoints_gets[of ?get ?i registry] t show ?thesis
      by (simp add: check_with_token[OF assms] prefix_prefix)
  qed
  have f: "\<exists>us. gets (snd (checkOperationStatusComprehensive e n registry operationId))
                  = model_operation_url c ?i # us" if "registry = c # rest" for c rest
  proof -
    from try_endpoints_first[of ?get ?i c rest] t that
    obtain us where "gets evs = model_operation_url c ?i # us"
      by auto
    with t show ?thesis
      by (cases r) (simp_all add: check_with_token[OF assms] snd_emit gets_append)
  qed
  show ?thesis
    using p f unfolding g by blast
qed

theorem lookups_in_registry_order_witness:
  "getAccessToken second_accepts 0 = Inr ''ya29.token''
   \<and> prefix (gets (snd (tick second_accepts 0 modelEndpoints ''veo-3.0-generate-001'' ''op42'')))
       [model_operation_url ''veo-3'' ''op42'',
        model_operation_url ''veo-3.0-generate-001'' ''op42'',
        model_operation_url ''video-generation'' ''op42'',
        operationsUrl ''op42'']
   \<and> gets (snd (tick second_accepts 0 modelEndpoints ''veo-3.0-generate-001'' ''op42''))
       = [model_operation_url ''veo-3'' ''op42'',
          model_operation_url ''veo-3.0-generate-001'' ''op42'',
          model_operation_url ''video-generation'' ''op42'',
          operationsUrl ''op42'']"
proof -
  have t: "getAccessToken second_accepts 0 = Inr ''ya29.token''"
    by (simp add: second_accepts_def default_env_def)
  have c: "cleanOperationId ''op42'' = ''op42''"
    by (simp add: cleanOperationId_def)
  let ?g = "gets (snd (tick second_accepts 0 modelEndpoints ''veo-3.0-generate-001'' ''op42''))"
  from lookups_in_registry_order[OF t, of modelEndpoints "''veo-3.0-generate-001''" "''op42''"]
  have p: "prefix ?g
             [model_operation_url ''veo-3'' ''op42'',
              model_operation_url ''veo-3.0-generate-001'' ''op42'',
              model_operation_url ''video-generation'' ''op42'',
              operationsUrl ''op42'']"
    by (simp add: c modelEndpoints_def)
  have g: "?g = [model_operation_url ''veo-3'' ''op42'',
                 model_operation_url ''veo-3.0-generate-001'' ''op42'',
                 model_operation_url ''video-generation'' ''op42'',
                 operationsUrl ''op42'']"
    by (simp add: tick_quiet check_second_accepts)
  from t p g show ?thesis
    by simp
qed

text \<open>
  The second candidate accepts the submission; the first lookup of the probe still goes
  to the first candidate.
\<close>

theorem first_lookup_not_submittedVia:
  "fst (submit second_accepts (request_of sunset) modelEndpoints)
     = Inr (''op42'', ''veo-3.0-generate-001'')
   \<and> take 1 (gets (snd (tick second_accepts 0 modelEndpoints ''veo-3.0-generate-001'' ''op42'')))
       = [model_operation_url ''veo-3'' ''op42'']
   \<and> model_operation_url ''veo-3'' ''op42'' \<noteq> model_operation_url ''veo-3.0-generate-001'' ''op42''"
proof -
  have s: "fst (submit second_accepts (request_of sunset) modelEndpoints)
             = Inr (''op42'', ''veo-3.0-generate-001'')"
    by (simp add: submit_def modelEndpoints_def second_accepts_def default_env_def op42_def
        not_found_def emit_def Let_def)
  have u: "model_operation_url ''veo-3'' ''op42'' \<noteq> model_operation_url ''veo-3.0-generate-001'' ''op42''"
    by (simp add: model_operation_url_def)
  from s u show ?thesis
    by (simp add: tick_quiet check_second_accepts)
qed

text \<open>
  Claim C2, as amended. A probe that succeeds before the deadline with a payload that is
  done and has a response object ends the loop: with a filtered count above zero the
  answer is 400 (content filtering), whatever the videos are; otherwise, without a first
  video that has a non-empty \<^verbatim>\<open>gcsUri\<close>, the answer is 500 "No video generated";
  otherwise the answer is 200 with that \<^verbatim>\<open>gcsUri\<close>, the operation id, the endpoint
  that resolved the probe and the candidate used.
\<close>

theorem done_payload_classified:
  assumes "now - startTime < maxWaitSeconds * 1000"
      and "fst (checkOperationStatusComprehensive e n registry operationId) = Success d endpoint"
      and "done_flag d" and "response d = Some r"
  shows "((\<exists>k. raiMediaFilteredCount r = Some k \<and> 0 < k) \<longrightarrow>
            fst (poll e registry modelUsed operationId startTime n now) = filtered_reply)
       \<and> (\<not> (\<exists>k. raiMediaFilteredCount r = Some k \<and> 0 < k) \<longrightarrow>
            (videos r = None \<or> videos r = Some []
               \<or> (\<exists>v vs. videos r = Some (v # vs) \<and> (gcsUri v = None \<or> gcsUri v = Some []))) \<longrightarrow>
            fst (poll e registry modelUsed operationId startTime n now) = empty_reply)
       \<and> (\<not> (\<exists>k. raiMediaFilteredCount r = Some k \<and> 0 < k) \<longrightarrow>
            (\<forall>v vs u. videos r = Some (v # vs) \<and> gcsUri v = Some u \<and> u \<noteq> [] \<longrightarrow>
               fst (poll e registry modelUsed operationId startTime n now)
                 = success_reply u operationId endpoint modelUsed))"
proof -
  let ?o = "fst (on_status modelUsed operationId endpoint d)"
  have p: "fst (poll e registry modelUsed operationId startTime n now) = x" if "?o = Inr (Some x)" for x
  proof -
    from that have "fst (tick e n registry modelUsed operationId) = Some x"
      by (simp add: tick_success[OF assms(2)])
    from poll_return[OF assms(1) this] show ?thesis by simp
  qed
  have f: "?o = Inr (Some filtered_reply)" if "raiMediaFilteredCount r = Some k" and "0 < k" for k
    using that assms(3,4) by (simp add: on_status_def fst_emit)
  have nf: "(case raiMediaFilteredCount r of Some k \<Rightarrow> 0 < k | None \<Rightarrow> False) = False"
    if "\<not> (\<exists>k. raiMediaFilteredCount r = Some k \<and> 0 < k)"
    using that by (cases "raiMediaFilteredCount r") simp_all
  have em: "?o = Inr (Some empty_reply)"
    if "\<not> (\<exists>k. raiMediaFilteredCount r = Some k \<and> 0 < k)"
      and "videos r = None \<or> videos r = Some []
             \<or> (\<exists>v vs. videos r = Some (v # vs) \<and> (gcsUri v = None \<or> gcsUri v = Some []))"
    using that(2) nf[OF that(1)] assms(3,4)
    by (auto simp: on_status_def fst_emit no_video_def)
  have su: "?o = Inr (Some (success_reply u operationId endpoint modelUsed))"
    if "\<not> (\<exists>k. raiMediaFilteredCount r = Some k \<and> 0 < k)"
      and "videos r = Some (v # vs)" and "gcsUri v = Some u" and "u \<noteq> []" for v vs u
    using that(2,3,4) nf[OF that(1)] assms(3,4)
    by (simp add: on_status_def fst_emit)
  show ?thesis
    using p f em su by blast
qed

theorem done_payload_classified_witness:
  "fst (poll (answers filtered_payload) modelEndpoints ''veo-3.0-generate-001'' ''op42'' 0 0 0)
     = filtered_reply
   \<and> fst (poll (answers empty_payload) modelEndpoints ''veo-3.0-generate-001'' ''op42'' 0 0 0)
     = empty_reply
   \<and> fst (poll (answers video_payload) modelEndpoints ''veo-3.0-generate-001'' ''op42'' 0 0 0)
     = success_reply ''gs://dreamframe/out.mp4'' ''op42'' ''veo-3'' ''veo-3.0-generate-001''"
proof -
  have t: "(0::nat) - 0 < maxWaitSeconds * 1000"
    by (simp add: maxWaitSeconds_def)
  have c: "fst (checkOperationStatusComprehensive (answers d) 0 modelEndpoints ''op42'')
             = Success d ''veo-3''" for d
    by (simp add: check_first_answers)
  let ?v = "\<lparr>gcsUri = Some ''gs://dreamframe/out.mp4''\<rparr>"
  let ?rf = "\<lparr>raiMediaFilteredCount = Some 1, videos = Some [?v]\<rparr>"
  let ?re = "\<lparr>raiMediaFilteredCount = Some 0, videos = Some []\<rparr>"
  let ?rv = "\<lparr>raiMediaFilteredCount = None, videos = Some [?v]\<rparr>"
  have "done_flag filtered_payload" and "response filtered_payload = Some ?rf"
    by (simp_all add: filtered_payload_def)
  from done_payload_classified[OF t c this, of "''veo-3.0-generate-001''"]
  have 1: "fst (poll (answers filtered_payload) modelEndpoints ''veo-3.0-generate-001'' ''op42'' 0 0 0)
             = filtered_reply"
    by simp
  have "done_flag empty_payload" and "response empty_payload = Some ?re"
    by (simp_all add: empty_payload_def)
  from done_payload_classified[OF t c this, of "''veo-3.0-generate-001''"]
  have 2: "fst (poll (answers empty_payload) modelEndpoints ''veo-3.0-generate-001'' ''op42'' 0 0 0)
             = empty_reply"
    by simp
  have "done_flag video_payload" and "response video_payload = Some ?rv"
    by (simp_all add: video_payload_def)
  from done_payload_classified[OF t c this, of "''veo-3.0-generate-001''"]
  have 3: "fst (poll (answers video_payload) modelEndpoints ''veo-3.0-generate-001'' ''op42'' 0 0 0)
             = success_reply ''gs://dreamframe/out.mp4'' ''op42'' ''veo-3'' ''veo-3.0-generate-001''"
    by simp
  from 1 2 3 show ?thesis by simp
qed

text \<open>
  A payload that is done and has no response object is not answered 500
  "No video generated": the pass returns nothing and the loop goes on.
\<close>

theorem absent_response_not_empty_result:
  "fst (checkOperationStatusComprehensive (answers no_response_payload) 0 modelEndpoints ''op42'')
     = Success no_response_payload ''veo-3''
   \<and> done_flag no_response_payload
   \<and> fst (tick (answers no_response_payload) 0 modelEndpoints ''veo-3'' ''op42'') \<noteq> Some empty_reply
   \<and> fst (poll (answers no_response_payload) modelEndpoints ''veo-3'' ''op42'' 0 0 0) \<noteq> empty_reply"
proof -
  let ?e = "answers no_response_payload"
  have t: "fst (tick ?e 0 modelEndpoints ''veo-3'' ''op42'') = None"
    by (simp add: tick_def check_first_answers on_status_def emit_def no_response_payload_def)
  have l: "timer_late ?e 0 = 14400000"
    by (simp add: answers_def default_env_def)
  have d: "done_flag no_response_payload"
    by (simp add: no_response_payload_def)
  have p: "fst (poll ?e modelEndpoints ''veo-3'' ''op42'' 0 0 0) \<noteq> empty_reply"
    by (simp add: poll_one_pass[OF t l] timed_out_def empty_reply_def)
  from t d p show ?thesis
    by (simp add: check_first_answers)
qed

text \<open>
  Claim C3. The ceiling is four hours. Every probe is started at a clock reading less
  than four hours after \<open>startTime\<close>; a loop entered at or after the ceiling starts no
  probe and issues no lookup; the answer 504 is given only after a loop test that failed,
  and every failed loop test reads at least \<open>startTime\<close> plus four hours. When no probe
  ever reports a payload that is done, the loop does end, with the answer 504.
\<close>

theorem deadline_checked_before_probe:
  "maxWaitSeconds * 1000 = 4 * 60 * 60 * 1000
   \<and> (\<forall>t\<in>set (probes (snd (poll e registry modelUsed operationId startTime n now))).
         t - startTime < maxWaitSeconds * 1000)
   \<and> (maxWaitSeconds * 1000 \<le> now - startTime \<longrightarrow>
         probes (snd (poll e registry modelUsed operationId startTime n now)) = []
         \<and> gets (snd (poll e registry modelUsed operationId startTime n now)) = [])
   \<and> (status_code (fst (poll e registry modelUsed operationId startTime n now)) = 504 \<longrightarrow>
         expiries (snd (poll e registry modelUsed operationId startTime n now)) \<noteq> [])
   \<and> (\<forall>t\<in>set (expiries (snd (poll e registry modelUsed operationId startTime n now))).
         startTime + maxWaitSeconds * 1000 \<le> t)
   \<and> ((\<forall>k\<ge>n. \<forall>d ep. fst (checkOperationStatusComprehensive e k registry operationId)
                          = Success d ep \<longrightarrow> \<not> done_flag d)
        \<longrightarrow> fst (poll e registry modelUsed operationId startTime n now)
              = timed_out operationId modelUsed
            \<and> (\<exists>t. expiries (snd (poll e registry modelUsed operationId startTime n now)) = [t]))"
proof -
  let ?p = "poll e registry modelUsed operationId startTime n now"
  have a: "fst ?p = timed_out operationId modelUsed \<and> (\<exists>t. expiries (snd ?p) = [t])"
    if nd: "\<forall>k\<ge>n. \<forall>d ep. fst (checkOperationStatusComprehensive e k registry operationId)
                          = Success d ep \<longrightarrow> \<not> done_flag d"
  proof -
    have "\<forall>k\<ge>n. fst (tick e k registry modelUsed operationId) = None"
    proof (intro allI impI)
      fix k assume k: "n \<le> k"
      show "fst (tick e k registry modelUsed operationId) = None"
      proof (cases "fst (checkOperationStatusComprehensive e k registry operationId)")
        case (Success d ep)
        with nd k have "\<not> done_flag d" by blast
        then show ?thesis
          by (simp add: tick_success[OF Success] on_status_not_done)
      next
        case (Failure r)
        then show ?thesis by (simp add: tick_failure)
      qed
    qed
    then show ?thesis
      using poll_never by blast
  qed
  have b: "maxWaitSeconds * 1000 \<le> now - startTime \<Longrightarrow> probes (snd ?p) = [] \<and> gets (snd ?p) = []"
    by (simp add: poll_expired)
  have c: "\<forall>t\<in>set (expiries (snd ?p)). startTime + maxWaitSeconds * 1000 \<le> t"
    using poll_clock[of e registry modelUsed operationId startTime n now]
    by (auto simp: maxWaitSeconds_def)
  show ?thesis
    using poll_clock[of e registry modelUsed operationId startTime n now] a b c
    by (simp add: maxWaitSeconds_def)
qed

theorem deadline_checked_before_probe_witness:
  "fst (checkOperationStatusComprehensive (answers running) 0 modelEndpoints ''op42'')
     = Success running ''veo-3''
   \<and> \<not> done_flag running
   \<and> fst (poll (answers running) modelEndpoints ''veo-3'' ''op42'' 0 0 0)
       = timed_out ''op42'' ''veo-3''
   \<and> probes (snd (poll (answers running) modelEndpoints ''veo-3'' ''op42'' 0 0 0)) = [0]
   \<and> expiries (snd (poll (answers running) modelEndpoints ''veo-3'' ''op42'' 0 0 0)) = [14430000]
   \<and> probes (snd (poll (answers running) modelEndpoints ''veo-3'' ''op42'' 0 1 14430000)) = []"
proof -
  let ?e = "answers running"
  have d: "\<not> done_flag running"
    by (simp add: running_def)
  have a: "\<forall>k\<ge>0. \<forall>d ep. fst (checkOperationStatusComprehensive ?e k modelEndpoints ''op42'')
                          = Success d ep \<longrightarrow> \<not> done_flag d"
    using d by (simp add: check_first_answers)
  have x: "maxWaitSeconds * 1000 \<le> 14430000 - (0::nat)"
    by (simp add: maxWaitSeconds_def)
  from deadline_checked_before_probe[of ?e modelEndpoints "''veo-3''" "''op42''" 0 0 0] a
  have p: "fst (poll ?e modelEndpoints ''veo-3'' ''op42'' 0 0 0) = timed_out ''op42'' ''veo-3''"
    by blast
  from deadline_checked_before_probe[of ?e modelEndpoints "''veo-3''" "''op42''" 0 1 14430000] x
  have q: "probes (snd (poll ?e modelEndpoints ''veo-3'' ''op42'' 0 1 14430000)) = []"
    by blast
  have t: "fst (tick ?e 0 modelEndpoints ''veo-3'' ''op42'') = None"
    using d by (simp add: tick_def check_first_answers on_status_def emit_def)
  have l: "timer_late ?e 0 = 14400000" and m: "probe_ms ?e 0 = 0"
    by (simp_all add: answers_def default_env_def)
  from d p q show ?thesis
    using tick_quiet[of ?e 0 modelEndpoints "''veo-3''" "''op42''"]
    by (simp add: check_first_answers poll_one_pass[OF t l] m probes_append expiries_append)
qed

text \<open>
  Claim C8. A probe that fails returns nothing from the pass: the failure is logged and,
  the ceiling not being reached, the loop goes on with the next probe after the timer. When
  every probe from some point on fails, the answer is the 504 of the ceiling.
\<close>

theorem failed_probe_not_terminal:
  assumes "fst (checkOperationStatusComprehensive e n registry operationId) = Failure reason"
  shows "fst (tick e n registry modelUsed operationId) = None
       \<and> Log (StatusCheckFailed reason) \<in> set (snd (tick e n registry modelUsed operationId))
       \<and> (now - startTime < maxWaitSeconds * 1000 \<longrightarrow>
            poll e registry modelUsed operationId startTime n now
              = emit (Probe now # snd (tick e n registry modelUsed operationId))
                  (poll e registry modelUsed operationId startTime (Suc n)
                     (now + probe_ms e n + 30000 + timer_late e n)))
       \<and> ((\<forall>k\<ge>n. \<exists>r. fst (checkOperationStatusComprehensive e k registry operationId) = Failure r)
            \<longrightarrow> fst (poll e registry modelUsed operationId startTime n now)
                  = timed_out operationId modelUsed)"
proof -
  have t: "fst (tick e n registry modelUsed operationId) = None"
    by (simp add: tick_failure[OF assms])
  have l: "Log (StatusCheckFailed reason) \<in> set (snd (tick e n registry modelUsed operationId))"
    by (simp add: tick_failure[OF assms])
  have a: "fst (poll e registry modelUsed operationId startTime n now)
             = timed_out operationId modelUsed"
    if "\<forall>k\<ge>n. \<exists>r. fst (checkOperationStatusComprehensive e k registry operationId) = Failure r"
  proof -
    have "\<forall>k\<ge>n. fst (tick e k registry modelUsed operationId) = None"
    proof (intro allI impI)
      fix k assume "n \<le> k"
      with that obtain r where
        "fst (checkOperationStatusComprehensive e k registry operationId) = Failure r"
        by blast
      then show "fst (tick e k registry modelUsed operationId) = None"
        by (simp add: tick_failure)
    qed
    then show ?thesis
      using poll_never by blast
  qed
  from t l a show ?thesis
    by (simp add: poll_continue)
qed

theorem failed_probe_not_terminal_witness:
  "fst (checkOperationStatusComprehensive timeouts_env 0 modelEndpoints ''op42'') = Failure all_failed
   \<and> fst (tick timeouts_env 0 modelEndpoints ''veo-3'' ''op42'') = None
   \<and> fst (poll timeouts_env modelEndpoints ''veo-3'' ''op42'' 0 0 0) = timed_out ''op42'' ''veo-3''
   \<and> probes (snd (poll timeouts_env modelEndpoints ''veo-3'' ''op42'' 0 0 0)) = [0]
   \<and> expiries (snd (poll timeouts_env modelEndpoints ''veo-3'' ''op42'' 0 0 0)) = [14430000]"
proof -
  have f: "fst (checkOperationStatusComprehensive timeouts_env 0 modelEndpoints ''op42'')
             = Failure all_failed"
    by (simp add: check_timeouts)
  have a: "\<forall>k\<ge>0. \<exists>r. fst (checkOperationStatusComprehensive timeouts_env k modelEndpoints ''op42'')
             = Failure r"
    by (simp add: check_timeouts)
  from failed_probe_not_terminal[OF f, of "''veo-3''" 0 0] a
  have t: "fst (tick timeouts_env 0 modelEndpoints ''veo-3'' ''op42'') = None"
    and p: "fst (poll timeouts_env modelEndpoints ''veo-3'' ''op42'' 0 0 0)
              = timed_out ''op42'' ''veo-3''"
    by simp_all
  have l: "timer_late timeouts_env 0 = 14400000" and m: "probe_ms timeouts_env 0 = 0"
    by (simp_all add: timeouts_env_def default_env_def)
  from f t p show ?thesis
    using tick_quiet[of timeouts_env 0 modelEndpoints "''veo-3''" "''op42''"]
    by (simp add: poll_one_pass[OF t l] m probes_append expiries_append)
qed

text \<open>
  Claim C10. A payload that is done and has no response object makes the pass throw on
  reading \<^verbatim>\<open>raiMediaFilteredCount\<close>; the error is caught and logged inside the pass,
  which returns nothing, so the loop goes on with the next probe. When every probe from
  some point on reports such a payload, the answer is the 504 of the ceiling.
\<close>

theorem done_without_response:
  assumes "fst (checkOperationStatusComprehensive e n registry operationId) = Success d endpoint"
      and "done_flag d" and "response d = None"
  shows "fst (on_status modelUsed operationId endpoint d) = Inl (TypeError ''raiMediaFilteredCount'')
       \<and> fst (tick e n registry modelUsed operationId) = None
       \<and> Log (ErrorDuringStatusCheck (message (TypeError ''raiMediaFilteredCount'')))
            \<in> set (snd (tick e n registry modelUsed operationId))
       \<and> (now - startTime < maxWaitSeconds * 1000 \<longrightarrow>
            poll e registry modelUsed operationId startTime n now
              = emit (Probe now # snd (tick e n registry modelUsed operationId))
                  (poll e registry modelUsed operationId startTime (Suc n)
                     (now + probe_ms e n + 30000 + timer_late e n)))
       \<and> ((\<forall>k\<ge>n. \<exists>d' ep. fst (checkOperationStatusComprehensive e k registry operationId)
                                = Success d' ep \<and> done_flag d' \<and> response d' = None)
            \<longrightarrow> fst (poll e registry modelUsed operationId startTime n now)
                  = timed_out operationId modelUsed)"
proof -
  have o: "fst (on_status m i ep d') = Inl (TypeError ''raiMediaFilteredCount'')"
    if "done_flag d'" and "response d' = None" for m i ep d'
    using that by (simp add: on_status_def fst_emit)
  have t: "fst (tick e k registry modelUsed operationId) = None"
    if "fst (checkOperationStatusComprehensive e k registry operationId) = Success d' ep"
      and "done_flag d'" and "response d' = None" for k d' ep
    using o[OF that(2,3)] by (simp add: tick_success[OF that(1)])
  have l: "Log (ErrorDuringStatusCheck (message (TypeError ''raiMediaFilteredCount'')))
             \<in> set (snd (tick e n registry modelUsed operationId))"
    using o[OF assms(2,3)] by (simp add: tick_success[OF assms(1)])
  have a: "fst (poll e registry modelUsed operationId startTime n now)
             = timed_out operationId modelUsed"
    if "\<forall>k\<ge>n. \<exists>d' ep. fst (checkOperationStatusComprehensive e k registry operationId)
                          = Success d' ep \<and> done_flag d' \<and> response d' = None"
  proof -
    have "\<forall>k\<ge>n. fst (tick e k registry modelUsed operationId) = None"
      using that t by blast
    then show ?thesis
      using poll_never by blast
  qed
  from o[OF assms(2,3)] t[OF assms] l a show ?thesis
    by (simp add: poll_continue)
qed

theorem done_without_response_witness:
  "fst (checkOperationStatusComprehensive (answers no_response_payload) 0 modelEndpoints ''op42'')
     = Success no_response_payload ''veo-3''
   \<and> done_flag no_response_payload \<and> response no_response_payload = None
   \<and> fst (tick (answers no_response_payload) 0 modelEndpoints ''veo-3'' ''op42'') = None
   \<and> fst (poll (answers no_response_payload) modelEndpoints ''veo-3'' ''op42'' 0 0 0)
       = timed_out ''op42'' ''veo-3''"
proof -
  let ?e = "answers no_response_payload"
  have s: "fst (checkOperationStatusComprehensive ?e 0 modelEndpoints ''op42'')
             = Success no_response_payload ''veo-3''"
    by (simp add: check_first_answers)
  have d: "done_flag no_response_payload" and r: "response no_response_payload = None"
    by (simp_all add: no_response_payload_def)
  have a: "\<forall>k\<ge>0. \<exists>d' ep. fst (checkOperationStatusComprehensive ?e k modelEndpoints ''op42'')
                           = Success d' ep \<and> done_flag d' \<and> response d' = None"
    using d r by (simp add: check_first_answers)
  from done_without_response[OF s d r, of "''veo-3''" 0 0] a s d r show ?thesis
    by simp
qed

end
